theory Spec2Isabelle
  imports Main
begin

section \<open>Errors, contexts and checks\<close>

text \<open>
  Go error values. \<open>ErrorString a s\<close> is the pointer returned by \<open>errors.New(s)\<close>; the
  number \<open>a\<close> stands for the pointer's identity, because two calls of \<open>errors.New\<close> with
  the same text give different errors. \<open>WrapError msg e\<close> is what \<open>fmt.Errorf\<close> returns
  for a format with one \<open>%w\<close> verb: the formatted message and the wrapped error.
  \<open>DeadlineExceeded\<close> and \<open>Canceled\<close> are the two errors of package context.
\<close>

datatype error =
    ErrorString nat string
  | WrapError string error
  | DeadlineExceeded
  | Canceled

fun Error :: "error \<Rightarrow> string" where
  "Error (ErrorString a s) = s"
| "Error (WrapError msg e) = msg"
| "Error DeadlineExceeded = ''context deadline exceeded''"
| "Error Canceled = ''context canceled''"

fun Unwrap :: "error \<Rightarrow> error option" where
  "Unwrap (WrapError msg e) = Some e"
| "Unwrap e = None"

text \<open>\<open>errors.Is(err, target)\<close>: walks the chain of wrapped errors looking for the target.\<close>

fun errors_Is :: "error \<Rightarrow> error \<Rightarrow> bool" where
  "errors_Is (WrapError msg e) target = (WrapError msg e = target \<or> errors_Is e target)"
| "errors_Is e target = (e = target)"

definition ErrURLCheckFailed :: error where
  "ErrURLCheckFailed = ErrorString 0 ''URL check failed''"


text \<open>
  Instants and durations are counted in nanoseconds, as \<open>time.Duration\<close> does. A context
  is modelled by its deadline (\<open>None\<close>: no deadline, as \<open>context.Background()\<close>).
\<close>

type_synonym time = int
type_synonym Duration = int

definition Millisecond :: Duration where
  "Millisecond = 1000000"

definition Second :: Duration where
  "Second = 1000 * Millisecond"

record Context =
  deadline :: "time option"

definition Background :: Context where
  "Background = \<lparr>deadline = None\<rparr>"

text \<open>\<open>ctx.Err()\<close> at instant \<open>t\<close>.\<close>

definition ctx_Err :: "Context \<Rightarrow> time \<Rightarrow> error option" where
  "ctx_Err ctx t =
     (case deadline ctx of
        None \<Rightarrow> None
      | Some d \<Rightarrow> if d \<le> t then Some DeadlineExceeded else None)"

text \<open>
  \<open>context.WithTimeout(parent, d)\<close> called at instant \<open>now\<close>: the child's deadline is
  \<open>now + d\<close> unless the parent's deadline is earlier, which then stays in force.
\<close>

definition WithTimeout :: "Context \<Rightarrow> time \<Rightarrow> Duration \<Rightarrow> Context" where
  "WithTimeout parent now d =
     (case deadline parent of
        None \<Rightarrow> parent\<lparr>deadline := Some (now + d)\<rparr>
      | Some cur \<Rightarrow> if cur < now + d then parent else parent\<lparr>deadline := Some (now + d)\<rparr>)"

text \<open>
  A check is called with a context; it is started at some instant and returns, at a later
  instant, \<open>nil\<close> (\<open>None\<close>) or an error. \<open>CheckFunc\<close> is the same function type, and
  \<open>CheckFunc.Check\<close> calls the function.
\<close>

type_synonym Check = "Context \<Rightarrow> time \<Rightarrow> time \<times> error option"
type_synonym CheckFunc = "Context \<Rightarrow> time \<Rightarrow> time \<times> error option"

definition CheckFunc_Check :: "CheckFunc \<Rightarrow> Check" where
  "CheckFunc_Check f = (\<lambda>ctx now. f ctx now)"

text \<open>
  The error group. \<open>eg.Go\<close> starts one goroutine per check; \<open>eg.Wait\<close> blocks until all
  of them have returned and gives the first error that one of them returned, \<open>nil\<close> when
  none did. The argument lists what each goroutine returned and when, in the order of
  the \<open>eg.Go\<close> calls; of two errors returned at the same instant the one started first is
  taken. The group cancels the context of the checks when the first error is returned;
  what a check does after that cancellation has no part in the result, so a check is
  described by what it returns when no other check has failed before.
\<close>

fun eg_Wait :: "(time \<times> error option) list \<Rightarrow> error option" where
  "eg_Wait [] = None"
| "eg_Wait ((t, None) # rs) = eg_Wait rs"
| "eg_Wait ((t, Some e) # rs) =
     (if list_ex (\<lambda>(t', r). r \<noteq> None \<and> t' < t) rs then eg_Wait rs else Some e)"

section \<open>The HTTP front end\<close>

text \<open>
  A request is modelled by its method, the path of its URL and its context. The path
  is the canonical one the multiplexer dispatches on. The recorded response is the status
  code and the body written, as \<open>httptest.ResponseRecorder\<close> has them; the headers of
  the response are left out.
\<close>

record Request =
  Method :: string
  Path :: string
  Ctx :: Context

text \<open>
  Values of type \<open>any\<close> as far as the info payload needs them: strings, maps from
  strings to values (as association lists, \<open>nil\<close> being \<open>None\<close> where it is told apart),
  and channels, which stand for the values \<open>encoding/json\<close> cannot encode. A byte
  slice is either plain text or the JSON text of a document, represented by the document.
\<close>

datatype any = AString string | AMap "(string \<times> any) list" | AChan

datatype json = JString string | JObject "(string \<times> json) list"

datatype bytes = Text string | Document json

definition nil_bytes :: bytes where
  "nil_bytes = Text []"

record ResponseRecorder =
  Code :: int
  Body :: bytes

definition StatusOK :: int where "StatusOK = 200"
definition StatusNoContent :: int where "StatusNoContent = 204"
definition StatusBadRequest :: int where "StatusBadRequest = 400"
definition StatusNotFound :: int where "StatusNotFound = 404"
definition StatusServiceUnavailable :: int where "StatusServiceUnavailable = 503"

datatype panic = PanicError error | PanicString string

text \<open>
  The request multiplexer holds the registered patterns, each with the function of the
  handler that serves it. \<open>HandleFunc\<close> panics on an empty pattern and on a pattern that
  is registered already. The three patterns of this package name one path each, so a
  request matches a pattern when its path is the pattern; a request that matches none is
  answered by \<open>http.NotFound\<close>.
\<close>

datatype HandlerFunc = handleLive_func | handleReady_func | handleInfo_func

type_synonym ServeMux = "(string \<times> HandlerFunc) list"

definition NewServeMux :: ServeMux where
  "NewServeMux = []"

definition HandleFunc :: "ServeMux \<Rightarrow> string \<Rightarrow> HandlerFunc \<Rightarrow> panic + ServeMux" where
  "HandleFunc m pattern f =
     (if pattern = [] then Inl (PanicString ''http: invalid pattern'')
      else if map_of m pattern \<noteq> None
        then Inl (PanicString (''http: multiple registrations for '' @ pattern))
      else Inr (m @ [(pattern, f)]))"

definition mux_Handler :: "ServeMux \<Rightarrow> Request \<Rightarrow> HandlerFunc option" where
  "mux_Handler m r = map_of m (Path r)"

definition NotFound :: ResponseRecorder where
  "NotFound = \<lparr>Code = StatusNotFound, Body = Text (''404 page not found'' @ [CHR 0x0A])\<rparr>"

definition LivePath :: string where "LivePath = ''/livez''"
definition ReadyPath :: string where "ReadyPath = ''/readyz''"
definition InfoPath :: string where "InfoPath = ''/infoz''"

section \<open>The handler\<close>

text \<open>
  The handler of \<open>healthcheck.go\<close>. The error log function acts on the state \<open>'w\<close> of
  its owner; \<open>None\<close> is the \<open>nil\<close> function. The lock of the struct is the subject of the
  last section: a call that runs alone finds the lock free and leaves it free.
\<close>

record 'w Handler =
  errorLogFunc :: "(error \<Rightarrow> 'w \<Rightarrow> 'w) option"
  checks :: "Check list"
  mux :: ServeMux
  infoPayload :: bytes

definition New :: "(error \<Rightarrow> 'w \<Rightarrow> 'w) option \<Rightarrow> panic + 'w Handler" where
  "New f =
     (let h = \<lparr>errorLogFunc = f, checks = [], mux = NewServeMux, infoPayload = nil_bytes\<rparr> in
      case HandleFunc (mux h) LivePath handleLive_func of
        Inl p \<Rightarrow> Inl p
      | Inr m1 \<Rightarrow>
          (case HandleFunc m1 ReadyPath handleReady_func of
             Inl p \<Rightarrow> Inl p
           | Inr m2 \<Rightarrow> Inr (h\<lparr>mux := m2\<rparr>)))"

definition AddCheck :: "('w, 'z) Handler_scheme \<Rightarrow> Check \<Rightarrow> ('w, 'z) Handler_scheme" where
  "AddCheck h c = h\<lparr>checks := checks h @ [c]\<rparr>"

definition AddCheckFunc :: "('w, 'z) Handler_scheme \<Rightarrow> CheckFunc \<Rightarrow> ('w, 'z) Handler_scheme" where
  "AddCheckFunc h c = AddCheck h (CheckFunc_Check c)"

text \<open>
  \<open>debug.ReadBuildInfo()\<close> is an input of \<open>EnableInfo\<close>: \<open>None\<close> when it reports
  \<open>ok = false\<close>, which it does in a binary built without module support.
\<close>

record Module =
  Version :: string

record BuildSetting =
  Key :: string
  Value :: string

record BuildInfo =
  MainModule :: Module
  Settings :: "BuildSetting list"

text \<open>Assignment to a map entry: the key's value is replaced, or the key is added.\<close>

fun map_assign :: "(string \<times> any) list \<Rightarrow> string \<Rightarrow> any \<Rightarrow> (string \<times> any) list" where
  "map_assign [] k v = [(k, v)]"
| "map_assign ((k', v') # m) k v =
     (if k' = k then (k, v) # m else (k', v') # map_assign m k v)"

text \<open>
  \<open>json.Marshal\<close>: a string and a map of encodable values are encoded, a channel is an
  \<open>UnsupportedTypeError\<close>.
\<close>

definition UnsupportedTypeError :: error where
  "UnsupportedTypeError = ErrorString 2 ''json: unsupported type: chan int''"

fun json_Marshal_value :: "any \<Rightarrow> error + json"
  and json_Marshal_members :: "(string \<times> any) list \<Rightarrow> error + (string \<times> json) list" where
  "json_Marshal_value (AString s) = Inr (JString s)"
| "json_Marshal_value (AMap m) =
     (case json_Marshal_members m of Inl e \<Rightarrow> Inl e | Inr ms \<Rightarrow> Inr (JObject ms))"
| "json_Marshal_value AChan = Inl UnsupportedTypeError"
| "json_Marshal_members [] = Inr []"
| "json_Marshal_members ((k, v) # m) =
     (case json_Marshal_value v of
        Inl e \<Rightarrow> Inl e
      | Inr j \<Rightarrow> (case json_Marshal_members m of Inl e \<Rightarrow> Inl e | Inr ms \<Rightarrow> Inr ((k, j) # ms)))"

definition json_Marshal :: "any \<Rightarrow> error + bytes" where
  "json_Marshal v = (case json_Marshal_value v of Inl e \<Rightarrow> Inl e | Inr j \<Rightarrow> Inr (Document j))"

definition EnableInfo ::
  "BuildInfo option \<Rightarrow> ('w, 'z) Handler_scheme \<Rightarrow> (string \<times> any) list option
     \<Rightarrow> panic + ('w, 'z) Handler_scheme" where
  "EnableInfo ReadBuildInfo h infoData =
     (let infoData1 = (case infoData of None \<Rightarrow> [] | Some m \<Rightarrow> m);
          infoData2 =
            (case ReadBuildInfo of
               None \<Rightarrow> infoData1
             | Some info \<Rightarrow>
                 (let settings =
                        fold (\<lambda>s m. map_assign m (Key s) (AString (Value s))) (Settings info) []
                  in map_assign
                       (map_assign infoData1 ''version'' (AString (Version (MainModule info))))
                       ''build_settings'' (AMap settings)))
      in case json_Marshal (AMap infoData2) of
           Inl err \<Rightarrow> Inl (PanicError err)
         | Inr payload \<Rightarrow>
             (case HandleFunc (mux h) InfoPath handleInfo_func of
                Inl p \<Rightarrow> Inl p
              | Inr m \<Rightarrow> Inr (h\<lparr>infoPayload := payload, mux := m\<rparr>)))"

definition handleLive :: "('w, 'z) Handler_scheme \<Rightarrow> Request \<Rightarrow> ResponseRecorder" where
  "handleLive h r = \<lparr>Code = StatusNoContent, Body = nil_bytes\<rparr>"

text \<open>
  \<open>handleReady\<close> is given the instant at which it runs and the state the error log
  function acts on; it gives the response and the state afterwards.
\<close>

definition handleReady ::
  "'w Handler \<Rightarrow> Request \<Rightarrow> time \<Rightarrow> 'w \<Rightarrow> ResponseRecorder \<times> 'w" where
  "handleReady h r now s =
     (let ctx = Ctx r in
      case eg_Wait (map (\<lambda>c. c ctx now) (checks h)) of
        Some err \<Rightarrow>
          (\<lparr>Code = StatusServiceUnavailable, Body = nil_bytes\<rparr>,
           (case errorLogFunc h of None \<Rightarrow> s | Some f \<Rightarrow> f err s))
      | None \<Rightarrow> (\<lparr>Code = StatusNoContent, Body = nil_bytes\<rparr>, s))"

definition handleInfo :: "('w, 'z) Handler_scheme \<Rightarrow> Request \<Rightarrow> ResponseRecorder" where
  "handleInfo h r = \<lparr>Code = StatusOK, Body = infoPayload h\<rparr>"

definition ServeHTTP ::
  "'w Handler \<Rightarrow> Request \<Rightarrow> time \<Rightarrow> 'w \<Rightarrow> ResponseRecorder \<times> 'w" where
  "ServeHTTP h r now s =
     (case mux_Handler (mux h) r of
        None \<Rightarrow> (NotFound, s)
      | Some handleLive_func \<Rightarrow> (handleLive h r, s)
      | Some handleReady_func \<Rightarrow> handleReady h r now s
      | Some handleInfo_func \<Rightarrow> (handleInfo h r, s))"

section \<open>The handler with a readiness timeout\<close>

text \<open>
  The later version of \<open>healthcheck.go\<close> (the one \<open>example/main.go\<close> is written
  against) adds the field \<open>ReadynessTimeout\<close> to the struct, exports the error log
  function as \<open>ErrorLogger\<close> (the field \<open>errorLogFunc\<close> here), configures the handler
  through options and moves the evaluation of the checks into \<open>ExecuteReadyChecks\<close>.
  \<open>AddCheck\<close>, \<open>AddCheckFunc\<close>, \<open>EnableInfo\<close>, \<open>handleLive\<close> and \<open>handleInfo\<close>
  are as above.
\<close>

record 'w Handler_v2 = "'w Handler" +
  ReadynessTimeout :: Duration

definition DefaultReadynessCheckTimeout :: Duration where
  "DefaultReadynessCheckTimeout = 10 * Second"

type_synonym 'w Option = "'w Handler_v2 \<Rightarrow> 'w Handler_v2"

definition WithErrorLogger :: "(error \<Rightarrow> 'w \<Rightarrow> 'w) option \<Rightarrow> 'w Option" where
  "WithErrorLogger l = (\<lambda>h. h\<lparr>errorLogFunc := l\<rparr>)"

definition WithReadynessTimeout :: "Duration \<Rightarrow> 'w Option" where
  "WithReadynessTimeout t = (\<lambda>h. h\<lparr>ReadynessTimeout := t\<rparr>)"

text \<open>The options are applied in order; a \<open>nil\<close> option (\<open>None\<close>) is skipped.\<close>

definition New_v2 :: "'w Option option list \<Rightarrow> panic + 'w Handler_v2" where
  "New_v2 opts =
     (let h0 = \<lparr>errorLogFunc = None, checks = [], mux = NewServeMux, infoPayload = nil_bytes,
                ReadynessTimeout = DefaultReadynessCheckTimeout\<rparr>;
          h = fold (\<lambda>opt h. case opt of None \<Rightarrow> h | Some f \<Rightarrow> f h) opts h0
      in case HandleFunc (mux h) LivePath handleLive_func of
           Inl p \<Rightarrow> Inl p
         | Inr m1 \<Rightarrow>
             (case HandleFunc m1 ReadyPath handleReady_func of
                Inl p \<Rightarrow> Inl p
              | Inr m2 \<Rightarrow> Inr (h\<lparr>mux := m2\<rparr>)))"

text \<open>The context the checks of one evaluation are run with.\<close>

definition bounded_ctx :: "'w Handler_v2 \<Rightarrow> Context \<Rightarrow> time \<Rightarrow> Context" where
  "bounded_ctx h ctx now =
     (if ReadynessTimeout h > 0 then WithTimeout ctx now (ReadynessTimeout h) else ctx)"

definition ExecuteReadyChecks ::
  "'w Handler_v2 \<Rightarrow> Context \<Rightarrow> time \<Rightarrow> 'w \<Rightarrow> error option \<times> 'w" where
  "ExecuteReadyChecks h ctx now s =
     (let ctx1 = bounded_ctx h ctx now in
      case eg_Wait (map (\<lambda>c. c ctx1 now) (checks h)) of
        Some err \<Rightarrow> (Some err, (case errorLogFunc h of None \<Rightarrow> s | Some f \<Rightarrow> f err s))
      | None \<Rightarrow> (None, s))"

definition handleReady_v2 ::
  "'w Handler_v2 \<Rightarrow> Request \<Rightarrow> time \<Rightarrow> 'w \<Rightarrow> ResponseRecorder \<times> 'w" where
  "handleReady_v2 h r now s =
     (case ExecuteReadyChecks h (Ctx r) now s of
        (Some err, s') \<Rightarrow> (\<lparr>Code = StatusServiceUnavailable, Body = nil_bytes\<rparr>, s')
      | (None, s') \<Rightarrow> (\<lparr>Code = StatusNoContent, Body = nil_bytes\<rparr>, s'))"

section \<open>Sequences of calls\<close>

text \<open>
  The exported operations of a handler, and a client that calls them one after the other
  on a handler and the state of the error log function. A panic ends the run.
\<close>

datatype call =
    Call_AddCheck Check
  | Call_AddCheckFunc CheckFunc
  | Call_EnableInfo "BuildInfo option" "(string \<times> any) list option"
  | Call_ServeHTTP Request time

fun run_call :: "'w Handler \<times> 'w \<Rightarrow> call \<Rightarrow> panic + 'w Handler \<times> 'w" where
  "run_call (h, s) (Call_AddCheck c) = Inr (AddCheck h c, s)"
| "run_call (h, s) (Call_AddCheckFunc f) = Inr (AddCheckFunc h f, s)"
| "run_call (h, s) (Call_EnableInfo bi infoData) =
     (case EnableInfo bi h infoData of Inl p \<Rightarrow> Inl p | Inr h' \<Rightarrow> Inr (h', s))"
| "run_call (h, s) (Call_ServeHTTP r now) = Inr (h, snd (ServeHTTP h r now s))"

fun run_calls :: "'w Handler \<times> 'w \<Rightarrow> call list \<Rightarrow> panic + 'w Handler \<times> 'w" where
  "run_calls hs [] = Inr hs"
| "run_calls hs (c # cs) =
     (case run_call hs c of Inl p \<Rightarrow> Inl p | Inr hs' \<Rightarrow> run_calls hs' cs)"

text \<open>The checks a sequence of calls registers, in the order of the calls.\<close>

fun registered :: "call list \<Rightarrow> Check list" where
  "registered [] = []"
| "registered (Call_AddCheck c # cs) = c # registered cs"
| "registered (Call_AddCheckFunc f # cs) = CheckFunc_Check f # registered cs"
| "registered (c # cs) = registered cs"



section \<open>The bundled checks\<close>

text \<open>Decimal formatting of an integer, as the verb \<open>%d\<close> writes it.\<close>

fun digits :: "nat \<Rightarrow> string" where
  "digits n = (if n < 10 then [char_of (48 + n)] else digits (n div 10) @ [char_of (48 + n mod 10)])"

definition Itoa :: "int \<Rightarrow> string" where
  "Itoa i = (if i < 0 then CHR ''-'' # digits (nat (- i)) else digits (nat i))"

text \<open>
  The HTTP client side. The response of a request is modelled by its status code.
  \<open>http.NewRequestWithContext\<close> and the \<open>Do\<close> method of a client are inputs of the
  model: the first gives a request or an error (a malformed method or URL), the second
  is started at an instant and returns, at a later instant, a response or an error.
  \<open>MethodGet\<close> is the constant of package http.
\<close>

record Response =
  StatusCode :: int

type_synonym 'req Client = "'req \<Rightarrow> time \<Rightarrow> time \<times> (error + Response)"

definition MethodGet :: string where
  "MethodGet = ''GET''"

definition CheckHTTPResponse ::
  "(Context \<Rightarrow> string \<Rightarrow> string \<Rightarrow> error + 'req) \<Rightarrow> 'req Client
     \<Rightarrow> string \<Rightarrow> string \<Rightarrow> 'req Client option \<Rightarrow> Check" where
  "CheckHTTPResponse NewRequestWithContext DefaultClient method url client =
     (let client1 = (case client of None \<Rightarrow> DefaultClient | Some c \<Rightarrow> c) in
      CheckFunc_Check (\<lambda>ctx now.
        case NewRequestWithContext ctx method url of
          Inl err \<Rightarrow>
            (now, Some (WrapError
               (Error ErrURLCheckFailed @ '': failed to create http request for '' @ method
                  @ '' '' @ url @ '': '' @ Error err)
               ErrURLCheckFailed))
        | Inr req \<Rightarrow>
            (case client1 req now of
               (t, Inl err) \<Rightarrow>
                 (t, Some (WrapError
                    (Error ErrURLCheckFailed @ '': failed to issue http request for '' @ method
                       @ '' '' @ url @ '': '' @ Error err)
                    ErrURLCheckFailed))
             | (t, Inr res) \<Rightarrow>
                 if StatusCode res \<ge> StatusBadRequest
                 then (t, Some (WrapError
                    (Error ErrURLCheckFailed @ '': got failing status code for '' @ method
                       @ '' '' @ url @ '': '' @ Itoa (StatusCode res))
                    ErrURLCheckFailed))
                 else (t, None))))"

definition CheckURL ::
  "(Context \<Rightarrow> string \<Rightarrow> string \<Rightarrow> error + 'req) \<Rightarrow> 'req Client \<Rightarrow> string \<Rightarrow> Check" where
  "CheckURL NewRequestWithContext DefaultClient url =
     CheckHTTPResponse NewRequestWithContext DefaultClient MethodGet url None"



text \<open>
  The check of the test of the readiness timeout: it waits for a timer of duration \<open>d\<close>
  or for the context to be done, whichever comes first, and returns \<open>ctx.Err()\<close> in the
  second case. When both come at the same instant the timer is taken.
\<close>

definition timer_check :: "Duration \<Rightarrow> Check" where
  "timer_check d =
     CheckFunc_Check (\<lambda>ctx now.
       case deadline ctx of
         None \<Rightarrow> (now + d, None)
       | Some dl \<Rightarrow>
           if dl < now + d then (max now dl, ctx_Err ctx (max now dl)) else (now + d, None))"

section \<open>Concurrent calls and the lock\<close>

text \<open>
  The lock of the handler is a \<open>sync.RWMutex\<close>: any number of readers or one writer.
  \<open>RLock\<close> and \<open>Lock\<close> give \<open>None\<close> when the caller has to wait; \<open>RUnlock\<close> and
  \<open>Unlock\<close> of a lock that is not held are fatal errors.
\<close>

record RWMutex =
  readers :: nat
  writer :: bool

definition RLock :: "RWMutex \<Rightarrow> RWMutex option" where
  "RLock l = (if writer l then None else Some (l\<lparr>readers := readers l + 1\<rparr>))"

definition RUnlock :: "RWMutex \<Rightarrow> string + RWMutex" where
  "RUnlock l =
     (if readers l = 0 then Inl ''sync: RUnlock of unlocked RWMutex''
      else Inr (l\<lparr>readers := readers l - 1\<rparr>))"

definition Lock :: "RWMutex \<Rightarrow> RWMutex option" where
  "Lock l = (if writer l \<or> readers l > 0 then None else Some (l\<lparr>writer := True\<rparr>))"

definition Unlock :: "RWMutex \<Rightarrow> string + RWMutex" where
  "Unlock l =
     (if \<not> writer l then Inl ''sync: Unlock of unlocked RWMutex''
      else Inr (l\<lparr>writer := False\<rparr>))"

text \<open>
  Goroutines that call \<open>handleReady\<close> and \<open>AddCheck\<close> on one handler. A goroutine in
  \<open>handleReady\<close> is at the call (before \<open>h.lock.RLock()\<close>), or it holds the read lock,
  has started the checks it found in \<open>h.checks\<close> and waits for them, or it has returned
  with its response. A goroutine in \<open>AddCheck\<close> is at the call (before
  \<open>h.lock.Lock()\<close>), or it holds the write lock, or it has returned. The deferred
  \<open>RUnlock\<close> and \<open>Unlock\<close> run when the function returns.
\<close>

datatype goroutine =
    Ready_call Request time
  | Ready_running Request time "Check list"
  | Ready_returned ResponseRecorder
  | Add_call Check
  | Add_locked Check
  | Add_returned

record 'w system =
  handler :: "'w Handler"
  lock :: RWMutex
  world :: 'w
  goroutines :: "goroutine list"

datatype 'a attempt = Blocked | Fatal string | Stepped 'a

text \<open>The next step of goroutine \<open>i\<close>; a goroutine that has returned has none.\<close>

definition step :: "'w system \<Rightarrow> nat \<Rightarrow> 'w system attempt" where
  "step sys i =
     (if i \<ge> length (goroutines sys) then Blocked
      else case goroutines sys ! i of
        Ready_call r now \<Rightarrow>
          (case RLock (lock sys) of
             None \<Rightarrow> Blocked
           | Some l \<Rightarrow>
               Stepped (sys\<lparr>lock := l,
                 goroutines := (goroutines sys)[i := Ready_running r now (checks (handler sys))]\<rparr>))
      | Ready_running r now cs \<Rightarrow>
          (case handleReady ((handler sys)\<lparr>checks := cs\<rparr>) r now (world sys) of
             (resp, s') \<Rightarrow>
               (case RUnlock (lock sys) of
                  Inl msg \<Rightarrow> Fatal msg
                | Inr l \<Rightarrow>
                    Stepped (sys\<lparr>lock := l, world := s',
                      goroutines := (goroutines sys)[i := Ready_returned resp]\<rparr>)))
      | Ready_returned resp \<Rightarrow> Blocked
      | Add_call c \<Rightarrow>
          (case Lock (lock sys) of
             None \<Rightarrow> Blocked
           | Some l \<Rightarrow>
               Stepped (sys\<lparr>lock := l, goroutines := (goroutines sys)[i := Add_locked c]\<rparr>))
      | Add_locked c \<Rightarrow>
          (case Unlock (lock sys) of
             Inl msg \<Rightarrow> Fatal msg
           | Inr l \<Rightarrow>
               Stepped (sys\<lparr>handler := AddCheck (handler sys) c, lock := l,
                 goroutines := (goroutines sys)[i := Add_returned]\<rparr>))
      | Add_returned \<Rightarrow> Blocked)"

text \<open>A schedule names the goroutine that takes each step.\<close>

fun run :: "'w system \<Rightarrow> nat list \<Rightarrow> 'w system attempt" where
  "run sys [] = Stepped sys"
| "run sys (i # sched) =
     (case step sys i of
        Stepped sys' \<Rightarrow> run sys' sched
      | Blocked \<Rightarrow> Blocked
      | Fatal msg \<Rightarrow> Fatal msg)"







section \<open>Properties of the error group\<close>

lemma eg_Wait_None_iff: "eg_Wait rs = None \<longleftrightarrow> (\<forall>x \<in> set rs. snd x = None)"
proof (induction rs rule: eg_Wait.induct)
  case 1
  then show ?case by simp
next
  case (2 t rs)
  then show ?case by simp
next
  case (3 t e rs)
  show ?case
  proof (cases "list_ex (\<lambda>(t', r). r \<noteq> None \<and> t' < t) rs")
    case True
    then have "\<exists>x \<in> set rs. snd x \<noteq> None"
      by (force simp: list_ex_iff)
    with True 3 show ?thesis by auto
  next
    case False
    then show ?thesis by simp
  qed
qed

lemma eg_Wait_Some_mem:
  "eg_Wait rs = Some e \<Longrightarrow>
     \<exists>t. (t, Some e) \<in> set rs \<and> (\<forall>t' e'. (t', Some e') \<in> set rs \<longrightarrow> t \<le> t')"
proof (induction rs rule: eg_Wait.induct)
  case 1
  then show ?case by simp
next
  case (2 t rs)
  then show ?case by auto
next
  case (3 t e0 rs)
  show ?case
  proof (cases "list_ex (\<lambda>(t', r). r \<noteq> None \<and> t' < t) rs")
    case True
    with 3 obtain t1 where t1: "(t1, Some e) \<in> set rs"
      "\<forall>t' e'. (t', Some e') \<in> set rs \<longrightarrow> t1 \<le> t'"
      by auto
    from True obtain t2 e2 where "(t2, Some e2) \<in> set rs" "t2 < t"
      by (auto simp: list_ex_iff)
    with t1 have "t1 \<le> t" by fastforce
    with t1 show ?thesis by auto
  next
    case False
    with 3 have "e0 = e" by simp
    moreover from False have "\<forall>t' e'. (t', Some e') \<in> set rs \<longrightarrow> t \<le> t'"
      by (fastforce simp: list_ex_iff)
    ultimately show ?thesis by auto
  qed
qed

lemma eg_Wait_failing:
  assumes "x \<in> set rs" "snd x \<noteq> None"
  shows "\<exists>e. eg_Wait rs = Some e"
proof (cases "eg_Wait rs")
  case None
  with assms show ?thesis by (simp add: eg_Wait_None_iff)
next
  case (Some e)
  then show ?thesis by simp
qed

section \<open>Properties of the multiplexer and of sequences of calls\<close>

lemma HandleFunc_keeps:
  "HandleFunc m p f = Inr m' \<Longrightarrow> map_of m q = Some g \<Longrightarrow> map_of m' q = Some g"
  by (auto simp: HandleFunc_def split: if_splits)



lemma New_value:
  "New f = Inr \<lparr>errorLogFunc = f, checks = [],
                 mux = [(LivePath, handleLive_func), (ReadyPath, handleReady_func)],
                 infoPayload = nil_bytes\<rparr>"
  by (simp add: New_def HandleFunc_def NewServeMux_def LivePath_def ReadyPath_def)

lemma run_call_checks:
  "run_call (h, s) c = Inr (h', s') \<Longrightarrow> checks h' = checks h @ registered [c]"
  by (cases c) (auto simp: AddCheck_def AddCheckFunc_def EnableInfo_def Let_def
      split: sum.splits)

lemma run_calls_checks:
  "run_calls (h, s) cs = Inr (h', s') \<Longrightarrow> checks h' = checks h @ registered cs"
proof (induction cs arbitrary: h s)
  case Nil
  then show ?case by simp
next
  case (Cons c cs)
  then obtain h1 s1 where 1: "run_call (h, s) c = Inr (h1, s1)"
    and 2: "run_calls (h1, s1) cs = Inr (h', s')"
    by (auto split: sum.splits)
  have "registered (c # cs) = registered [c] @ registered cs"
    by (cases c) simp_all
  with run_call_checks [OF 1] Cons.IH [OF 2] show ?case by simp
qed

lemma run_call_mux_keeps:
  "run_call (h, s) c = Inr (h', s') \<Longrightarrow> map_of (mux h) q = Some g \<Longrightarrow> map_of (mux h') q = Some g"
  by (cases c) (auto simp: AddCheck_def AddCheckFunc_def EnableInfo_def Let_def
      split: sum.splits dest: HandleFunc_keeps)

lemma run_calls_mux_keeps:
  "run_calls (h, s) cs = Inr (h', s') \<Longrightarrow> map_of (mux h) q = Some g \<Longrightarrow> map_of (mux h') q = Some g"
proof (induction cs arbitrary: h s)
  case Nil
  then show ?case by simp
next
  case (Cons c cs)
  then obtain h1 s1 where 1: "run_call (h, s) c = Inr (h1, s1)"
    and 2: "run_calls (h1, s1) cs = Inr (h', s')"
    by (auto split: sum.splits)
  from run_call_mux_keeps [OF 1 Cons.prems(2)] Cons.IH [OF 2] show ?case by simp
qed

section \<open>Properties of errors\<close>

lemma errors_Is_refl: "errors_Is e e"
  by (cases e) simp_all

section \<open>Properties of the readiness evaluation\<close>

lemma ExecuteReadyChecks_result:
  "fst (ExecuteReadyChecks h ctx now s)
     = eg_Wait (map (\<lambda>c. c (bounded_ctx h ctx now) now) (checks h))"
  by (simp add: ExecuteReadyChecks_def Let_def split: option.splits)

lemma ExecuteReadyChecks_state:
  "snd (ExecuteReadyChecks h ctx now s)
     = (case eg_Wait (map (\<lambda>c. c (bounded_ctx h ctx now) now) (checks h)) of
          None \<Rightarrow> s
        | Some e \<Rightarrow> (case errorLogFunc h of None \<Rightarrow> s | Some f \<Rightarrow> f e s))"
  by (simp add: ExecuteReadyChecks_def Let_def split: option.splits)

lemma handleReady_code:
  "Code (fst (handleReady h r now s))
     = (if eg_Wait (map (\<lambda>c. c (Ctx r) now) (checks h)) = None then 204 else 503)"
  by (simp add: handleReady_def Let_def StatusNoContent_def StatusServiceUnavailable_def
      split: option.splits)

lemma handleReady_state:
  "snd (handleReady h r now s)
     = (case eg_Wait (map (\<lambda>c. c (Ctx r) now) (checks h)) of
          None \<Rightarrow> s
        | Some e \<Rightarrow> (case errorLogFunc h of None \<Rightarrow> s | Some f \<Rightarrow> f e s))"
  by (simp add: handleReady_def Let_def split: option.splits)

lemma eg_Wait_map_None_iff:
  "eg_Wait (map (\<lambda>c. c ctx now) cs) = None \<longleftrightarrow> (\<forall>c \<in> set cs. snd (c ctx now) = None)"
  by (simp add: eg_Wait_None_iff)

lemma eg_Wait_map_Some:
  assumes "eg_Wait (map (\<lambda>c. c ctx now) cs) = Some e"
  shows "\<exists>c \<in> set cs. snd (c ctx now) = Some e"
proof -
  from eg_Wait_Some_mem [OF assms] obtain t where "(t, Some e) \<in> set (map (\<lambda>c. c ctx now) cs)"
    by blast
  then obtain c where "c \<in> set cs" "c ctx now = (t, Some e)"
    by auto
  then have "c \<in> set cs \<and> snd (c ctx now) = Some e"
    by simp
  then show ?thesis by blast
qed

section \<open>Properties of the bundled checks\<close>

lemma CheckHTTPResponse_result:
  "snd (CheckHTTPResponse NewRequestWithContext DefaultClient method url client ctx now) = None
   \<or> (\<exists>msg. snd (CheckHTTPResponse NewRequestWithContext DefaultClient method url client ctx now)
          = Some (WrapError msg ErrURLCheckFailed))"
  by (simp add: CheckHTTPResponse_def CheckFunc_Check_def Let_def
      split: sum.splits prod.splits)

section \<open>Properties of the info payload\<close>








section \<open>Properties of the lock\<close>








section \<open>The registry\<close>

text \<open>
  Claim C7. The registry of checks is a sequence that is empty in the handler \<open>New\<close>
  returns. \<open>AddCheck\<close> and \<open>AddCheckFunc\<close> each add exactly one check at the end and
  keep the checks registered before in their order. After any sequence of calls of the
  exported operations (registrations, \<open>EnableInfo\<close>, served requests) the registry is
  the registry before followed by the checks registered, in the order of registration:
  no call removes or reorders a check.
\<close>

theorem C7_registry_append_only:
  "(\<exists>h0. New f = Inr h0 \<and> checks h0 = [])
   \<and> checks (AddCheck h c) = checks h @ [c]
   \<and> checks (AddCheckFunc h g) = checks h @ [CheckFunc_Check g]
   \<and> (\<forall>cs h' s'. run_calls (h, s) cs = Inr (h', s') \<longrightarrow>
          checks h' = checks h @ registered cs)"
proof (intro conjI allI impI)
  show "\<exists>h0. New f = Inr h0 \<and> checks h0 = []"
    by (simp add: New_value)
  show "checks (AddCheck h c) = checks h @ [c]"
    by (simp add: AddCheck_def)
  show "checks (AddCheckFunc h g) = checks h @ [CheckFunc_Check g]"
    by (simp add: AddCheckFunc_def AddCheck_def)
  show "checks h' = checks h @ registered cs" if "run_calls (h, s) cs = Inr (h', s')" for cs h' s'
    using that by (rule run_calls_checks)
qed

theorem C7_registry_append_only_witness:
  "\<exists>h0. New (None :: (error \<Rightarrow> error list \<Rightarrow> error list) option) = Inr h0
     \<and> (\<exists>h' s'. run_calls (h0, [])
            [Call_AddCheck (\<lambda>ctx now. (now, None)),
             Call_EnableInfo None None,
             Call_AddCheckFunc (\<lambda>ctx now. (now + 1, Some Canceled)),
             Call_ServeHTTP \<lparr>Method = ''GET'', Path = ReadyPath, Ctx = Background\<rparr> 0]
            = Inr (h', s')
          \<and> checks h' = [\<lambda>ctx now. (now, None), CheckFunc_Check (\<lambda>ctx now. (now + 1, Some Canceled))])"
proof -
  let ?cs = "[Call_AddCheck (\<lambda>ctx now. (now, None)),
             Call_EnableInfo None None,
             Call_AddCheckFunc (\<lambda>ctx now. (now + 1, Some Canceled)),
             Call_ServeHTTP \<lparr>Method = ''GET'', Path = ReadyPath, Ctx = Background\<rparr> 0]"
  let ?h = "\<lparr>errorLogFunc = None, checks = [], mux = [], infoPayload = nil_bytes\<rparr>
    :: error list Handler"
  have "\<exists>h0. New (None :: (error \<Rightarrow> error list \<Rightarrow> error list) option) = Inr h0
      \<and> checks h0 = []"
    using C7_registry_append_only [of None ?h "\<lambda>ctx now. (now, None)" "\<lambda>ctx now. (now, None)" "[]"]
    by (rule conjunct1)
  then obtain h0 where h0: "New (None :: (error \<Rightarrow> error list \<Rightarrow> error list) option) = Inr h0"
    and e: "checks h0 = []"
    by blast
  have "\<exists>h' s'. run_calls (h0, []) ?cs = Inr (h', s')"
    using h0 by (auto simp: New_value AddCheck_def AddCheckFunc_def EnableInfo_def
        json_Marshal_def HandleFunc_def LivePath_def ReadyPath_def InfoPath_def)
  then obtain h' s' where r: "run_calls (h0, []) ?cs = Inr (h', s')"
    by blast
  from C7_registry_append_only [of None h0 "\<lambda>ctx now. (now, None)" "\<lambda>ctx now. (now, None)" "[]"] r
  have "checks h' = checks h0 @ registered ?cs"
    by blast
  with e have "checks h' = [\<lambda>ctx now. (now, None), CheckFunc_Check (\<lambda>ctx now. (now + 1, Some Canceled))]"
    by simp
  with h0 r show ?thesis by blast
qed

section \<open>Liveness\<close>

text \<open>
  Claim C9. On a handler made by \<open>New\<close> and then used through any sequence of calls,
  every request to the liveness path is answered with 204 No Content. No check is
  executed for it: the answer is the same whatever checks are registered, and the state
  of the error log function is left as it was.
\<close>

theorem C9_liveness_always_no_content:
  assumes "New f = Inr h0"
    and "run_calls (h0, s0) cs = Inr (h, s)"
    and "Path r = LivePath"
  shows "ServeHTTP (h\<lparr>checks := any_checks\<rparr>) r now s1
           = (\<lparr>Code = 204, Body = nil_bytes\<rparr>, s1)
         \<and> ServeHTTP h r now s1 = (\<lparr>Code = 204, Body = nil_bytes\<rparr>, s1)"
proof -
  from assms(1) have "map_of (mux h0) LivePath = Some handleLive_func"
    by (auto simp: New_value)
  with assms(2) have "map_of (mux h) LivePath = Some handleLive_func"
    by (rule run_calls_mux_keeps)
  with assms(3) show ?thesis
    by (simp add: ServeHTTP_def mux_Handler_def handleLive_def StatusNoContent_def)
qed

theorem C9_liveness_always_no_content_witness:
  "ServeHTTP
     \<lparr>errorLogFunc = Some (\<lambda>e s. s @ [e]), checks = [\<lambda>ctx now. (now, Some Canceled)],
      mux = [(LivePath, handleLive_func), (ReadyPath, handleReady_func)],
      infoPayload = nil_bytes\<rparr>
     \<lparr>Method = ''GET'', Path = LivePath, Ctx = Background\<rparr> 0 []
   = (\<lparr>Code = 204, Body = nil_bytes\<rparr>, [])"
proof -
  let ?base = "\<lparr>errorLogFunc = Some (\<lambda>e s. s @ [e]), checks = [],
      mux = [(LivePath, handleLive_func), (ReadyPath, handleReady_func)],
      infoPayload = nil_bytes\<rparr> :: error list Handler"
  have 1: "New (Some (\<lambda>e s. s @ [e])) = Inr ?base"
    by (rule New_value)
  have 2: "run_calls (?base, []) [Call_AddCheck (\<lambda>ctx now. (now, Some Canceled))]
      = Inr (?base\<lparr>checks := [\<lambda>ctx now. (now, Some Canceled)]\<rparr>, [])"
    by (simp add: AddCheck_def)
  have 3: "Path \<lparr>Method = ''GET'', Path = LivePath, Ctx = Background\<rparr> = LivePath"
    by simp
  from C9_liveness_always_no_content [OF 1 2 3, of "[]" 0 "[]"]
  show ?thesis by simp
qed

section \<open>Readiness\<close>

text \<open>
  Claim C3. The readiness evaluation succeeds exactly when no check fails.
  \<open>ExecuteReadyChecks\<close> returns \<open>nil\<close> if and only if every registered check returns
  \<open>nil\<close> under the context of the evaluation; with no check registered it returns \<open>nil\<close>
  and leaves the state alone, whatever the readiness timeout of the handler is. The same
  holds for \<open>handleReady\<close> of the handler without timeout, whose answer is 204 exactly when
  no check fails.
\<close>

theorem C3_success_iff_no_check_fails:
  "(fst (ExecuteReadyChecks h2 ctx now s) = None
      \<longleftrightarrow> (\<forall>c \<in> set (checks h2). snd (c (bounded_ctx h2 ctx now) now) = None))
   \<and> (checks h2 = [] \<longrightarrow> ExecuteReadyChecks h2 ctx now s = (None, s))
   \<and> (Code (fst (handleReady h r now s)) = 204
      \<longleftrightarrow> (\<forall>c \<in> set (checks h). snd (c (Ctx r) now) = None))
   \<and> (checks h = [] \<longrightarrow> handleReady h r now s = (\<lparr>Code = 204, Body = nil_bytes\<rparr>, s))"
proof (intro conjI impI)
  show "fst (ExecuteReadyChecks h2 ctx now s) = None
      \<longleftrightarrow> (\<forall>c \<in> set (checks h2). snd (c (bounded_ctx h2 ctx now) now) = None)"
    by (simp only: ExecuteReadyChecks_result eg_Wait_map_None_iff)
  show "ExecuteReadyChecks h2 ctx now s = (None, s)" if "checks h2 = []"
    using that by (simp add: ExecuteReadyChecks_def)
  show "Code (fst (handleReady h r now s)) = 204
      \<longleftrightarrow> (\<forall>c \<in> set (checks h). snd (c (Ctx r) now) = None)"
    by (simp add: handleReady_code eg_Wait_map_None_iff)
  show "handleReady h r now s = (\<lparr>Code = 204, Body = nil_bytes\<rparr>, s)" if "checks h = []"
    using that by (simp add: handleReady_def StatusNoContent_def)
qed

theorem C3_success_iff_no_check_fails_witness:
  "fst (ExecuteReadyChecks
         \<lparr>errorLogFunc = Some (\<lambda>e s. s @ [e]),
          checks = [\<lambda>ctx now. (now + 3, None), \<lambda>ctx now. (now + 1, None)],
          mux = [], infoPayload = nil_bytes, ReadynessTimeout = 2\<rparr> Background 0 []) = None
   \<and> ExecuteReadyChecks
         \<lparr>errorLogFunc = Some (\<lambda>e s. s @ [e]), checks = [],
          mux = [], infoPayload = nil_bytes, ReadynessTimeout = 7\<rparr> Background 0 [] = (None, [])
   \<and> Code (fst (handleReady
         \<lparr>errorLogFunc = Some (\<lambda>e s. s @ [e]),
          checks = [\<lambda>ctx now. (now + 3, None), \<lambda>ctx now. (now + 1, None)],
          mux = [], infoPayload = nil_bytes\<rparr>
         \<lparr>Method = ''GET'', Path = ReadyPath, Ctx = Background\<rparr> 0 [])) = 204
   \<and> Code (fst (handleReady
         \<lparr>errorLogFunc = Some (\<lambda>e s. s @ [e]),
          checks = [\<lambda>ctx now. (now + 3, None), \<lambda>ctx now. (now + 1, Some Canceled)],
          mux = [], infoPayload = nil_bytes\<rparr>
         \<lparr>Method = ''GET'', Path = ReadyPath, Ctx = Background\<rparr> 0 [])) \<noteq> 204"
proof -
  let ?ok = "[\<lambda>ctx now. (now + 3, None), \<lambda>ctx now. (now + 1, None)] :: Check list"
  let ?bad = "[\<lambda>ctx now. (now + 3, None), \<lambda>ctx now. (now + 1, Some Canceled)] :: Check list"
  let ?h2 = "\<lparr>errorLogFunc = Some (\<lambda>e s. s @ [e]), checks = ?ok,
          mux = [], infoPayload = nil_bytes, ReadynessTimeout = 2\<rparr> :: error list Handler_v2"
  let ?e2 = "\<lparr>errorLogFunc = Some (\<lambda>e s. s @ [e]), checks = [],
          mux = [], infoPayload = nil_bytes, ReadynessTimeout = 7\<rparr> :: error list Handler_v2"
  let ?h = "\<lparr>errorLogFunc = Some (\<lambda>e s. s @ [e]), checks = ?ok,
          mux = [], infoPayload = nil_bytes\<rparr> :: error list Handler"
  let ?hb = "\<lparr>errorLogFunc = Some (\<lambda>e s. s @ [e]), checks = ?bad,
          mux = [], infoPayload = nil_bytes\<rparr> :: error list Handler"
  let ?r = "\<lparr>Method = ''GET'', Path = ReadyPath, Ctx = Background\<rparr>"
  have a: "fst (ExecuteReadyChecks ?h2 Background 0 []) = None"
    using C3_success_iff_no_check_fails [of ?h2 Background 0 "[]" ?h ?r] by simp
  have b: "ExecuteReadyChecks ?e2 Background 0 [] = (None, [])"
    using C3_success_iff_no_check_fails [of ?e2 Background 0 "[]" ?h ?r] by simp
  have c: "Code (fst (handleReady ?h ?r 0 [])) = 204"
    using C3_success_iff_no_check_fails [of ?h2 Background 0 "[]" ?h ?r] by simp
  have d: "Code (fst (handleReady ?hb ?r 0 [])) \<noteq> 204"
    using C3_success_iff_no_check_fails [of ?h2 Background 0 "[]" ?hb ?r] by simp
  from a b c d show ?thesis by blast
qed

text \<open>
  Claim C2. When at least one registered check fails, \<open>ExecuteReadyChecks\<close> returns an
  error, which is the error one of the failing checks returned. If an error logger is
  configured, the state afterwards is the state before with the logger applied once to
  that error; without a logger the state is unchanged. When the evaluation succeeds the
  state is unchanged, so the logger was not called. The same holds for \<open>handleReady\<close>
  of the handler without timeout, where the failure is the answer 503. The logger is the
  one given to \<open>New\<close>, or to the option \<open>WithErrorLogger\<close>.
\<close>

theorem C2_failure_logged_once:
  "((\<exists>c \<in> set (checks h2). snd (c (bounded_ctx h2 ctx now) now) \<noteq> None) \<longrightarrow>
      (\<exists>e. ExecuteReadyChecks h2 ctx now s
              = (Some e, case errorLogFunc h2 of None \<Rightarrow> s | Some f \<Rightarrow> f e s)
          \<and> (\<exists>c \<in> set (checks h2). snd (c (bounded_ctx h2 ctx now) now) = Some e)))
   \<and> (fst (ExecuteReadyChecks h2 ctx now s) = None \<longrightarrow>
        snd (ExecuteReadyChecks h2 ctx now s) = s)
   \<and> ((\<exists>c \<in> set (checks h). snd (c (Ctx r) now) \<noteq> None) \<longrightarrow>
      (\<exists>e. handleReady h r now s
              = (\<lparr>Code = 503, Body = nil_bytes\<rparr>,
                 case errorLogFunc h of None \<Rightarrow> s | Some f \<Rightarrow> f e s)
          \<and> (\<exists>c \<in> set (checks h). snd (c (Ctx r) now) = Some e)))
   \<and> (Code (fst (handleReady h r now s)) = 204 \<longrightarrow> snd (handleReady h r now s) = s)
   \<and> (\<exists>h1. New_v2 [Some (WithErrorLogger l)] = Inr h1 \<and> errorLogFunc h1 = l)
   \<and> (\<exists>h1. New l = Inr h1 \<and> errorLogFunc h1 = l)"
proof (intro conjI impI)
  show "\<exists>h1. New_v2 [Some (WithErrorLogger l)] = Inr h1 \<and> errorLogFunc h1 = l"
    by (simp add: New_v2_def HandleFunc_def NewServeMux_def LivePath_def ReadyPath_def
        WithErrorLogger_def)
  show "\<exists>h1. New l = Inr h1 \<and> errorLogFunc h1 = l"
    by (simp add: New_value)
next
  assume "\<exists>c \<in> set (checks h2). snd (c (bounded_ctx h2 ctx now) now) \<noteq> None"
  then have "eg_Wait (map (\<lambda>c. c (bounded_ctx h2 ctx now) now) (checks h2)) \<noteq> None"
    by (simp add: eg_Wait_map_None_iff)
  then obtain e where e: "eg_Wait (map (\<lambda>c. c (bounded_ctx h2 ctx now) now) (checks h2)) = Some e"
    by blast
  then have "ExecuteReadyChecks h2 ctx now s
      = (Some e, case errorLogFunc h2 of None \<Rightarrow> s | Some f \<Rightarrow> f e s)"
    by (simp add: ExecuteReadyChecks_def)
  with eg_Wait_map_Some [OF e]
  show "\<exists>e. ExecuteReadyChecks h2 ctx now s
              = (Some e, case errorLogFunc h2 of None \<Rightarrow> s | Some f \<Rightarrow> f e s)
          \<and> (\<exists>c \<in> set (checks h2). snd (c (bounded_ctx h2 ctx now) now) = Some e)"
    by blast
next
  assume "fst (ExecuteReadyChecks h2 ctx now s) = None"
  then show "snd (ExecuteReadyChecks h2 ctx now s) = s"
    by (simp add: ExecuteReadyChecks_result ExecuteReadyChecks_state)
next
  assume "\<exists>c \<in> set (checks h). snd (c (Ctx r) now) \<noteq> None"
  then have "eg_Wait (map (\<lambda>c. c (Ctx r) now) (checks h)) \<noteq> None"
    by (simp add: eg_Wait_map_None_iff)
  then obtain e where e: "eg_Wait (map (\<lambda>c. c (Ctx r) now) (checks h)) = Some e"
    by blast
  then have "handleReady h r now s
      = (\<lparr>Code = 503, Body = nil_bytes\<rparr>, case errorLogFunc h of None \<Rightarrow> s | Some f \<Rightarrow> f e s)"
    by (simp add: handleReady_def StatusServiceUnavailable_def)
  with eg_Wait_map_Some [OF e]
  show "\<exists>e. handleReady h r now s
              = (\<lparr>Code = 503, Body = nil_bytes\<rparr>,
                 case errorLogFunc h of None \<Rightarrow> s | Some f \<Rightarrow> f e s)
          \<and> (\<exists>c \<in> set (checks h). snd (c (Ctx r) now) = Some e)"
    by blast
next
  assume "Code (fst (handleReady h r now s)) = 204"
  then show "snd (handleReady h r now s) = s"
    by (simp add: handleReady_code handleReady_state split: if_splits)
qed

theorem C2_failure_logged_once_witness:
  "ExecuteReadyChecks
     \<lparr>errorLogFunc = Some (\<lambda>e s. s @ [e]),
      checks = [\<lambda>ctx now. (now + Millisecond, None), \<lambda>ctx now. (now, Some (ErrorString 7 ''boom''))],
      mux = [], infoPayload = nil_bytes, ReadynessTimeout = 10 * Second\<rparr> Background 0 []
     = (Some (ErrorString 7 ''boom''), [ErrorString 7 ''boom''])
   \<and> handleReady
     \<lparr>errorLogFunc = Some (\<lambda>e s. s @ [e]),
      checks = [\<lambda>ctx now. (now + Millisecond, None), \<lambda>ctx now. (now, Some (ErrorString 7 ''boom''))],
      mux = [], infoPayload = nil_bytes\<rparr>
     \<lparr>Method = ''GET'', Path = ReadyPath, Ctx = Background\<rparr> 0 []
     = (\<lparr>Code = 503, Body = nil_bytes\<rparr>, [ErrorString 7 ''boom''])
   \<and> snd (ExecuteReadyChecks
     \<lparr>errorLogFunc = Some (\<lambda>e s. s @ [e]),
      checks = [\<lambda>ctx now. (now + Millisecond, None)],
      mux = [], infoPayload = nil_bytes, ReadynessTimeout = 10 * Second\<rparr> Background 0 []) = []"
proof -
  let ?cs = "[\<lambda>ctx now. (now + Millisecond, None),
              \<lambda>ctx now. (now, Some (ErrorString 7 ''boom''))] :: Check list"
  let ?h2 = "\<lparr>errorLogFunc = Some (\<lambda>e s. s @ [e]), checks = ?cs,
      mux = [], infoPayload = nil_bytes, ReadynessTimeout = 10 * Second\<rparr> :: error list Handler_v2"
  let ?g2 = "\<lparr>errorLogFunc = Some (\<lambda>e s. s @ [e]), checks = [\<lambda>ctx now. (now + Millisecond, None)],
      mux = [], infoPayload = nil_bytes, ReadynessTimeout = 10 * Second\<rparr> :: error list Handler_v2"
  let ?h = "\<lparr>errorLogFunc = Some (\<lambda>e s. s @ [e]), checks = ?cs,
      mux = [], infoPayload = nil_bytes\<rparr> :: error list Handler"
  let ?r = "\<lparr>Method = ''GET'', Path = ReadyPath, Ctx = Background\<rparr>"
  note inst1 = C2_failure_logged_once [of ?h2 Background 0 "[]" ?h ?r]
  note inst2 = C2_failure_logged_once [of ?g2 Background 0 "[]" ?h ?r]
  have "\<exists>c \<in> set (checks ?h2). snd (c (bounded_ctx ?h2 Background 0) 0) \<noteq> None"
    by simp
  with inst1 obtain e where e: "ExecuteReadyChecks ?h2 Background 0 []
              = (Some e, case errorLogFunc ?h2 of None \<Rightarrow> [] | Some f \<Rightarrow> f e [])"
    and m: "\<exists>c \<in> set (checks ?h2). snd (c (bounded_ctx ?h2 Background 0) 0) = Some e"
    by blast
  from m have "e = ErrorString 7 ''boom''"
    by auto
  with e have a: "ExecuteReadyChecks ?h2 Background 0 []
      = (Some (ErrorString 7 ''boom''), [ErrorString 7 ''boom''])"
    by simp
  have "\<exists>c \<in> set (checks ?h). snd (c (Ctx ?r) 0) \<noteq> None"
    by simp
  with inst1 obtain e' where e': "handleReady ?h ?r 0 []
              = (\<lparr>Code = 503, Body = nil_bytes\<rparr>,
                 case errorLogFunc ?h of None \<Rightarrow> [] | Some f \<Rightarrow> f e' [])"
    and m': "\<exists>c \<in> set (checks ?h). snd (c (Ctx ?r) 0) = Some e'"
    by blast
  from m' have "e' = ErrorString 7 ''boom''"
    by auto
  with e' have b: "handleReady ?h ?r 0 []
      = (\<lparr>Code = 503, Body = nil_bytes\<rparr>, [ErrorString 7 ''boom''])"
    by simp
  have "fst (ExecuteReadyChecks ?g2 Background 0 []) = None"
    by (simp add: ExecuteReadyChecks_def)
  with inst2 have c: "snd (ExecuteReadyChecks ?g2 Background 0 []) = []"
    by blast
  from a b c show ?thesis by blast
qed

section \<open>Request methods\<close>

text \<open>
  Claim C10. The liveness and the readiness route are registered for the path alone,
  and no handler looks at the method of the request. On a handler made by \<open>New\<close> and then
  used through any sequence of calls, a request with any method to the liveness path is
  answered with 204, and a request with any method to the readiness path runs
  \<open>handleReady\<close>, with the same answer and the same effect as the request with method
  GET: 204 if no check fails and 503 otherwise.
\<close>

theorem C10_any_method:
  assumes "New f = Inr h0"
    and "run_calls (h0, s0) cs = Inr (h, s)"
  shows "(Path r = LivePath \<longrightarrow>
            ServeHTTP h (r\<lparr>Method := m\<rparr>) now s1 = (\<lparr>Code = 204, Body = nil_bytes\<rparr>, s1))
       \<and> (Path r = ReadyPath \<longrightarrow>
            ServeHTTP h (r\<lparr>Method := m\<rparr>) now s1 = handleReady h (r\<lparr>Method := m\<rparr>) now s1
          \<and> ServeHTTP h (r\<lparr>Method := m\<rparr>) now s1 = ServeHTTP h (r\<lparr>Method := ''GET''\<rparr>) now s1
          \<and> Code (fst (ServeHTTP h (r\<lparr>Method := m\<rparr>) now s1))
              = (if \<forall>c \<in> set (checks h). snd (c (Ctx r) now) = None then 204 else 503))"
proof (intro conjI impI)
  from assms(1) have "map_of (mux h0) LivePath = Some handleLive_func"
    by (auto simp: New_value)
  with assms(2) have live: "map_of (mux h) LivePath = Some handleLive_func"
    by (rule run_calls_mux_keeps)
  from assms(1) have "map_of (mux h0) ReadyPath = Some handleReady_func"
    by (auto simp: New_value LivePath_def ReadyPath_def)
  with assms(2) have ready: "map_of (mux h) ReadyPath = Some handleReady_func"
    by (rule run_calls_mux_keeps)
  show "ServeHTTP h (r\<lparr>Method := m\<rparr>) now s1 = (\<lparr>Code = 204, Body = nil_bytes\<rparr>, s1)"
    if "Path r = LivePath"
    using that live by (simp add: ServeHTTP_def mux_Handler_def handleLive_def StatusNoContent_def)
  assume p: "Path r = ReadyPath"
  with ready show serve: "ServeHTTP h (r\<lparr>Method := m\<rparr>) now s1 = handleReady h (r\<lparr>Method := m\<rparr>) now s1"
    by (simp add: ServeHTTP_def mux_Handler_def)
  from p ready show "ServeHTTP h (r\<lparr>Method := m\<rparr>) now s1 = ServeHTTP h (r\<lparr>Method := ''GET''\<rparr>) now s1"
    by (simp add: ServeHTTP_def mux_Handler_def handleReady_def)
  show "Code (fst (ServeHTTP h (r\<lparr>Method := m\<rparr>) now s1))
      = (if \<forall>c \<in> set (checks h). snd (c (Ctx r) now) = None then 204 else 503)"
    by (simp add: serve handleReady_code eg_Wait_map_None_iff)
qed

theorem C10_any_method_witness:
  "ServeHTTP
     \<lparr>errorLogFunc = Some (\<lambda>e s. s @ [e]), checks = [\<lambda>ctx now. (now, Some Canceled)],
      mux = [(LivePath, handleLive_func), (ReadyPath, handleReady_func)],
      infoPayload = nil_bytes\<rparr>
     \<lparr>Method = ''POST'', Path = LivePath, Ctx = Background\<rparr> 0 []
   = (\<lparr>Code = 204, Body = nil_bytes\<rparr>, [])
   \<and> Code (fst (ServeHTTP
     \<lparr>errorLogFunc = Some (\<lambda>e s. s @ [e]), checks = [\<lambda>ctx now. (now, Some Canceled)],
      mux = [(LivePath, handleLive_func), (ReadyPath, handleReady_func)],
      infoPayload = nil_bytes\<rparr>
     \<lparr>Method = ''DELETE'', Path = ReadyPath, Ctx = Background\<rparr> 0 [])) = 503"
proof -
  let ?base = "\<lparr>errorLogFunc = Some (\<lambda>e s. s @ [e]), checks = [],
      mux = [(LivePath, handleLive_func), (ReadyPath, handleReady_func)],
      infoPayload = nil_bytes\<rparr> :: error list Handler"
  let ?h = "?base\<lparr>checks := [\<lambda>ctx now. (now, Some Canceled)]\<rparr>"
  have 1: "New (Some (\<lambda>e s. s @ [e])) = Inr ?base"
    by (rule New_value)
  have 2: "run_calls (?base, []) [Call_AddCheck (\<lambda>ctx now. (now, Some Canceled))] = Inr (?h, [])"
    by (simp add: AddCheck_def)
  let ?live = "\<lparr>Method = ''GET'', Path = LivePath, Ctx = Background\<rparr>"
  let ?ready = "\<lparr>Method = ''GET'', Path = ReadyPath, Ctx = Background\<rparr>"
  have "Path ?live = LivePath"
    by simp
  with C10_any_method [OF 1 2, of ?live "''POST''" 0 "[]"]
  have "ServeHTTP ?h (?live\<lparr>Method := ''POST''\<rparr>) 0 [] = (\<lparr>Code = 204, Body = nil_bytes\<rparr>, [])"
    by blast
  then have a: "ServeHTTP ?h \<lparr>Method = ''POST'', Path = LivePath, Ctx = Background\<rparr> 0 []
      = (\<lparr>Code = 204, Body = nil_bytes\<rparr>, [])"
    by simp
  have "Path ?ready = ReadyPath"
    by simp
  with C10_any_method [OF 1 2, of ?ready "''DELETE''" 0 "[]"]
  have "Code (fst (ServeHTTP ?h (?ready\<lparr>Method := ''DELETE''\<rparr>) 0 []))
      = (if \<forall>c \<in> set (checks ?h). snd (c (Ctx ?ready) 0) = None then 204 else 503)"
    by blast
  then have b: "Code (fst (ServeHTTP ?h \<lparr>Method = ''DELETE'', Path = ReadyPath, Ctx = Background\<rparr> 0 [])) = 503"
    by simp
  from a b show ?thesis by simp
qed

section \<open>The URL check and the ping check\<close>

text \<open>
  Claim C5. For every method and URL (and every client, every way requests are built),
  the check \<open>CheckHTTPResponse\<close> builds returns \<open>nil\<close> if and only if the request could
  be built, the client returned a response, and the status code of the response is
  below 400. In every other case (the request cannot be built, the client returns an
  error, the status code is 400 or more) it returns an error that wraps
  \<open>ErrURLCheckFailed\<close>. \<open>CheckURL\<close> is that check with method GET and the default
  client.
\<close>

theorem C5_url_check_status_below_400:
  "(snd (CheckHTTPResponse NewRequestWithContext DefaultClient method url client ctx now) = None
      \<longleftrightarrow> (\<exists>req t res. NewRequestWithContext ctx method url = Inr req
            \<and> (case client of None \<Rightarrow> DefaultClient | Some c \<Rightarrow> c) req now = (t, Inr res)
            \<and> StatusCode res < 400))
   \<and> (\<forall>e. snd (CheckHTTPResponse NewRequestWithContext DefaultClient method url client ctx now)
             = Some e
          \<longrightarrow> errors_Is e ErrURLCheckFailed \<and> Unwrap e = Some ErrURLCheckFailed)
   \<and> CheckURL NewRequestWithContext DefaultClient url
        = CheckHTTPResponse NewRequestWithContext DefaultClient ''GET'' url None"
proof (intro conjI allI impI)
  let ?c = "case client of None \<Rightarrow> DefaultClient | Some c \<Rightarrow> c"
  let ?res = "CheckHTTPResponse NewRequestWithContext DefaultClient method url client ctx now"
  show "snd ?res = None
      \<longleftrightarrow> (\<exists>req t res. NewRequestWithContext ctx method url = Inr req
            \<and> ?c req now = (t, Inr res) \<and> StatusCode res < 400)"
  proof (cases "NewRequestWithContext ctx method url")
    case (Inl err)
    then show ?thesis
      by (simp add: CheckHTTPResponse_def CheckFunc_Check_def)
  next
    case (Inr req)
    obtain t out where d: "?c req now = (t, out)"
      by (cases "?c req now")
    show ?thesis
    proof (cases out)
      case (Inl err)
      with Inr d show ?thesis
        by (simp add: CheckHTTPResponse_def CheckFunc_Check_def)
    next
      case res: (Inr res)
      with Inr d show ?thesis
        by (simp add: CheckHTTPResponse_def CheckFunc_Check_def StatusBadRequest_def not_le)
    qed
  qed
  show "errors_Is e ErrURLCheckFailed" if "snd ?res = Some e" for e
    using that CheckHTTPResponse_result [of NewRequestWithContext DefaultClient "method" url client ctx now]
    by (auto simp: errors_Is_refl)
  show "Unwrap e = Some ErrURLCheckFailed" if "snd ?res = Some e" for e
    using that CheckHTTPResponse_result [of NewRequestWithContext DefaultClient "method" url client ctx now]
    by auto
  show "CheckURL NewRequestWithContext DefaultClient url
        = CheckHTTPResponse NewRequestWithContext DefaultClient ''GET'' url None"
    by (simp add: CheckURL_def MethodGet_def)
qed

theorem C5_url_check_status_below_400_witness:
  "snd (CheckURL
          (\<lambda>ctx m u. if u = ''not a url'' then Inl (ErrorString 5 ''parse error'') else Inr (m, u))
          (\<lambda>req now. (now + 2, Inr \<lparr>StatusCode = (if snd req = ''/ok'' then 204 else 503)\<rparr>))
          ''/ok'' Background 0) = None
   \<and> (\<exists>e. snd (CheckURL
          (\<lambda>ctx m u. if u = ''not a url'' then Inl (ErrorString 5 ''parse error'') else Inr (m, u))
          (\<lambda>req now. (now + 2, Inr \<lparr>StatusCode = (if snd req = ''/ok'' then 204 else 503)\<rparr>))
          ''/fail'' Background 0) = Some e \<and> errors_Is e ErrURLCheckFailed)"
proof -
  let ?nr = "\<lambda>(ctx :: Context) (m :: string) (u :: string).
      if u = ''not a url'' then Inl (ErrorString 5 ''parse error'') else Inr (m, u)"
  let ?dc = "\<lambda>(req :: string \<times> string) (now :: time).
      (now + 2, Inr \<lparr>StatusCode = (if snd req = ''/ok'' then 204 else 503)\<rparr>)"
  note ok = C5_url_check_status_below_400 [of ?nr ?dc "''GET''" "''/ok''" None Background 0]
  note fail = C5_url_check_status_below_400 [of ?nr ?dc "''GET''" "''/fail''" None Background 0]
  have "\<exists>req t res. ?nr Background ''GET'' ''/ok'' = Inr req
      \<and> (case None of None \<Rightarrow> ?dc | Some c \<Rightarrow> c) req 0 = (t, Inr res) \<and> StatusCode res < 400"
    by simp
  with ok have "snd (CheckHTTPResponse ?nr ?dc ''GET'' ''/ok'' None Background 0) = None"
    by blast
  moreover from ok have "CheckURL ?nr ?dc ''/ok'' = CheckHTTPResponse ?nr ?dc ''GET'' ''/ok'' None"
    by blast
  ultimately have a: "snd (CheckURL ?nr ?dc ''/ok'' Background 0) = None"
    by simp
  have "\<exists>e. snd (CheckHTTPResponse ?nr ?dc ''GET'' ''/fail'' None Background 0) = Some e"
    by (simp add: CheckHTTPResponse_def CheckFunc_Check_def StatusBadRequest_def)
  then obtain e where e: "snd (CheckHTTPResponse ?nr ?dc ''GET'' ''/fail'' None Background 0) = Some e"
    by blast
  with fail have "errors_Is e ErrURLCheckFailed"
    by blast
  moreover from fail have "CheckURL ?nr ?dc ''/fail'' = CheckHTTPResponse ?nr ?dc ''GET'' ''/fail'' None"
    by blast
  ultimately have b: "\<exists>e. snd (CheckURL ?nr ?dc ''/fail'' Background 0) = Some e
      \<and> errors_Is e ErrURLCheckFailed"
    using e by simp
  from a b show ?thesis by blast
qed



section \<open>The readiness timeout\<close>

text \<open>
  Claim C1, as amended. The readiness timeout of a handler made without options is ten
  seconds, and the option \<open>WithReadynessTimeout\<close> sets it. When the readiness timeout is greater than 0, the context the checks are run
  with has the deadline \<open>now + timeout\<close>, or the deadline of the caller's context when
  that is earlier, and the result of the evaluation is what the error group gives for
  the checks run with that context. The evaluation returns the deadline-exceeded error
  when a check returns that error and every error other than it is returned strictly
  later. The handler waits for all checks and does not turn the expiry of the context
  into a failure by itself.
\<close>

theorem C1_timeout_bounds_the_context:
  "(\<exists>h0. New_v2 [] = Inr (h0 :: 'w Handler_v2) \<and> ReadynessTimeout h0 = 10 * Second)
   \<and> (ReadynessTimeout h > 0 \<longrightarrow>
        deadline (bounded_ctx h ctx now)
          = Some (case deadline ctx of
                    None \<Rightarrow> now + ReadynessTimeout h
                  | Some d \<Rightarrow> min d (now + ReadynessTimeout h)))
   \<and> fst (ExecuteReadyChecks h ctx now s)
        = eg_Wait (map (\<lambda>c. c (bounded_ctx h ctx now) now) (checks h))
   \<and> ((\<exists>c \<in> set (checks h). \<exists>t.
          c (bounded_ctx h ctx now) now = (t, Some DeadlineExceeded)
          \<and> (\<forall>c' \<in> set (checks h). \<forall>t' e'.
                c' (bounded_ctx h ctx now) now = (t', Some e')
                  \<longrightarrow> e' = DeadlineExceeded \<or> t < t'))
        \<longrightarrow> fst (ExecuteReadyChecks h ctx now s) = Some DeadlineExceeded)
   \<and> (\<exists>h1. New_v2 [Some (WithReadynessTimeout t)] = Inr (h1 :: 'w Handler_v2)
          \<and> ReadynessTimeout h1 = t)"
proof (intro conjI impI)
  show "\<exists>h1. New_v2 [Some (WithReadynessTimeout t)] = Inr (h1 :: 'w Handler_v2)
      \<and> ReadynessTimeout h1 = t"
    by (simp add: New_v2_def HandleFunc_def NewServeMux_def LivePath_def ReadyPath_def
        WithReadynessTimeout_def)
  show "\<exists>h0. New_v2 [] = Inr (h0 :: 'w Handler_v2) \<and> ReadynessTimeout h0 = 10 * Second"
    by (simp add: New_v2_def HandleFunc_def NewServeMux_def LivePath_def ReadyPath_def
        DefaultReadynessCheckTimeout_def)
  show "deadline (bounded_ctx h ctx now)
      = Some (case deadline ctx of
                None \<Rightarrow> now + ReadynessTimeout h
              | Some d \<Rightarrow> min d (now + ReadynessTimeout h))"
    if "ReadynessTimeout h > 0"
    using that by (simp add: bounded_ctx_def WithTimeout_def min_def split: option.splits)
  show res: "fst (ExecuteReadyChecks h ctx now s)
      = eg_Wait (map (\<lambda>c. c (bounded_ctx h ctx now) now) (checks h))"
    by (rule ExecuteReadyChecks_result)
  let ?rs = "map (\<lambda>c. c (bounded_ctx h ctx now) now) (checks h)"
  assume "\<exists>c \<in> set (checks h). \<exists>t.
          c (bounded_ctx h ctx now) now = (t, Some DeadlineExceeded)
          \<and> (\<forall>c' \<in> set (checks h). \<forall>t' e'.
                c' (bounded_ctx h ctx now) now = (t', Some e')
                  \<longrightarrow> e' = DeadlineExceeded \<or> t < t')"
  then obtain c t where c: "c \<in> set (checks h)"
    and ct: "c (bounded_ctx h ctx now) now = (t, Some DeadlineExceeded)"
    and first: "\<forall>c' \<in> set (checks h). \<forall>t' e'.
                c' (bounded_ctx h ctx now) now = (t', Some e')
                  \<longrightarrow> e' = DeadlineExceeded \<or> t < t'"
    by blast
  from c have "c (bounded_ctx h ctx now) now \<in> (\<lambda>c. c (bounded_ctx h ctx now) now) ` set (checks h)"
    by (rule imageI)
  with ct have mem: "(t, Some DeadlineExceeded) \<in> set ?rs"
    by simp
  moreover have "snd (t, Some DeadlineExceeded) \<noteq> None"
    by simp
  ultimately have "\<exists>e. eg_Wait ?rs = Some e"
    by (rule eg_Wait_failing)
  then obtain e where e: "eg_Wait ?rs = Some e"
    by blast
  from eg_Wait_Some_mem [OF e] obtain t0 where t0: "(t0, Some e) \<in> set ?rs"
    and least: "\<forall>t' e'. (t', Some e') \<in> set ?rs \<longrightarrow> t0 \<le> t'"
    by blast
  from least mem have "t0 \<le> t"
    by blast
  moreover from t0 obtain c0 where "c0 \<in> set (checks h)"
    "c0 (bounded_ctx h ctx now) now = (t0, Some e)"
    by auto
  with first have "e = DeadlineExceeded \<or> t < t0"
    by blast
  ultimately have "e = DeadlineExceeded"
    by auto
  with e res show "fst (ExecuteReadyChecks h ctx now s) = Some DeadlineExceeded"
    by simp
qed

text \<open>
  The scenario of the test of the timeout: a timeout of one millisecond and a single
  check that waits ten milliseconds unless the context is done before.
\<close>

theorem C1_timeout_bounds_the_context_witness:
  "deadline (bounded_ctx
      (\<lparr>errorLogFunc = None, checks = [timer_check (10 * Millisecond)],
        mux = [], infoPayload = nil_bytes, ReadynessTimeout = Millisecond\<rparr> :: unit Handler_v2)
      Background 0)
     = Some Millisecond
   \<and> fst (ExecuteReadyChecks
      \<lparr>errorLogFunc = None, checks = [timer_check (10 * Millisecond)],
       mux = [], infoPayload = nil_bytes, ReadynessTimeout = Millisecond\<rparr> Background 0 ())
     = Some DeadlineExceeded"
proof -
  let ?h = "\<lparr>errorLogFunc = None, checks = [timer_check (10 * Millisecond)],
       mux = [], infoPayload = nil_bytes, ReadynessTimeout = Millisecond\<rparr> :: unit Handler_v2"
  note inst = C1_timeout_bounds_the_context [of ?h Background 0 "()"]
  have pos: "ReadynessTimeout ?h > 0"
    by (simp add: Millisecond_def)
  with inst have d: "deadline (bounded_ctx ?h Background 0)
      = Some (case deadline Background of
                None \<Rightarrow> 0 + ReadynessTimeout ?h
              | Some d \<Rightarrow> min d (0 + ReadynessTimeout ?h))"
    by blast
  then have a: "deadline (bounded_ctx ?h Background 0) = Some Millisecond"
    by (simp add: Background_def)
  then have run: "timer_check (10 * Millisecond) (bounded_ctx ?h Background 0) 0
      = (Millisecond, Some DeadlineExceeded)"
    by (simp add: timer_check_def CheckFunc_Check_def ctx_Err_def Millisecond_def)
  then have "\<exists>c \<in> set (checks ?h). \<exists>t.
          c (bounded_ctx ?h Background 0) 0 = (t, Some DeadlineExceeded)
          \<and> (\<forall>c' \<in> set (checks ?h). \<forall>t' e'.
                c' (bounded_ctx ?h Background 0) 0 = (t', Some e')
                  \<longrightarrow> e' = DeadlineExceeded \<or> t < t')"
    by simp
  with inst have "fst (ExecuteReadyChecks ?h Background 0 ()) = Some DeadlineExceeded"
    by blast
  with a show ?thesis by simp
qed

text \<open>
  Claim C1 as stated fails. With a timeout of one millisecond and a single check that
  takes ten milliseconds and returns \<open>nil\<close> without looking at its context, the context
  of the evaluation expires at one millisecond, before the check completes, and no check
  fails; the evaluation returns \<open>nil\<close>, not the deadline-exceeded error.
\<close>

theorem C1_counterexample:
  "ReadynessTimeout
      (\<lparr>errorLogFunc = None, checks = [\<lambda>ctx now. (now + 10 * Millisecond, None)],
        mux = [], infoPayload = nil_bytes, ReadynessTimeout = Millisecond\<rparr> :: unit Handler_v2) > 0
   \<and> deadline (bounded_ctx
      (\<lparr>errorLogFunc = None, checks = [\<lambda>ctx now. (now + 10 * Millisecond, None)],
        mux = [], infoPayload = nil_bytes, ReadynessTimeout = Millisecond\<rparr> :: unit Handler_v2)
      Background 0)
     = Some Millisecond
   \<and> (\<lambda>ctx now. (now + 10 * Millisecond, None :: error option))
        (bounded_ctx
          (\<lparr>errorLogFunc = None, checks = [\<lambda>ctx now. (now + 10 * Millisecond, None)],
            mux = [], infoPayload = nil_bytes, ReadynessTimeout = Millisecond\<rparr> :: unit Handler_v2)
          Background 0) 0
     = (10 * Millisecond, None)
   \<and> Millisecond < 10 * Millisecond
   \<and> ExecuteReadyChecks
      \<lparr>errorLogFunc = None, checks = [\<lambda>ctx now. (now + 10 * Millisecond, None)],
       mux = [], infoPayload = nil_bytes, ReadynessTimeout = Millisecond\<rparr> Background 0 ()
     = (None, ())"
  by (simp add: bounded_ctx_def WithTimeout_def Background_def ExecuteReadyChecks_def
      Millisecond_def)

section \<open>The info endpoint\<close>




section \<open>Registrations during an evaluation\<close>




end
